theory Spec2Isabelle
  imports Complex_Main "HOL-Library.Sublist"
begin

section \<open>Python values and exceptions\<close>

text \<open>
  The module \<^verbatim>\<open>artifacttool.py\<close> works on the values that \<^verbatim>\<open>json.loads\<close> returns:
  \<^verbatim>\<open>None\<close>, booleans, integers, floats, strings, lists and dicts with string keys.
  A dict is an association list read with \<open>map_of\<close>. A Python float is modelled by
  the rational number it denotes: rounding, overflow, the infinities and nan are outside
  the model.
\<close>

datatype json =
    JNull
  | JBool bool
  | JInt int
  | JFloat rat
  | JString string
  | JArray "json list"
  | JObject "(string \<times> json) list"

text \<open>The exceptions that the module raises itself or that its operations can raise.\<close>

datatype py_error =
    CLIError string
  | TypeError
  | KeyError string
  | ValueError
  | ZeroDivisionError
  | AttributeError
  | OtherError string

text \<open>
  Library functions whose results are taken as given: \<^verbatim>\<open>json.loads\<close> (\<open>None\<close> when it
  raises), \<^verbatim>\<open>repr\<close> of floats, lists and dicts, and \<^verbatim>\<open>float\<close> of a string (\<open>None\<close>
  when it raises \<^verbatim>\<open>ValueError\<close>).
\<close>

record pylib =
  json_loads :: "string \<Rightarrow> json option"
  py_repr :: "json \<Rightarrow> string"
  float_of_str :: "string \<Rightarrow> rat option"

definition rbind :: "py_error + 'a \<Rightarrow> ('a \<Rightarrow> py_error + 'b) \<Rightarrow> py_error + 'b" where
  "rbind m f = (case m of Inl e \<Rightarrow> Inl e | Inr x \<Rightarrow> f x)"

text \<open>Truth value of an object, as \<^verbatim>\<open>if ex:\<close> and \<^verbatim>\<open>if json_line and ...\<close> test it.\<close>

fun py_truthy :: "json \<Rightarrow> bool" where
  "py_truthy JNull = False"
| "py_truthy (JBool b) = b"
| "py_truthy (JInt n) = (n \<noteq> 0)"
| "py_truthy (JFloat r) = (r \<noteq> 0)"
| "py_truthy (JString s) = (s \<noteq> [])"
| "py_truthy (JArray xs) = (xs \<noteq> [])"
| "py_truthy (JObject kv) = (kv \<noteq> [])"

text \<open>
  \<^verbatim>\<open>k in v\<close> for a string \<open>k\<close>: a key test on a dict, an element test on a list,
  a substring test on a string, and \<^verbatim>\<open>TypeError\<close> on \<^verbatim>\<open>None\<close>, booleans and numbers.
\<close>

fun py_contains :: "string \<Rightarrow> json \<Rightarrow> py_error + bool" where
  "py_contains k (JObject kv) = Inr (map_of kv k \<noteq> None)"
| "py_contains k (JArray xs) = Inr (JString k \<in> set xs)"
| "py_contains k (JString s) = Inr (sublist k s)"
| "py_contains k JNull = Inl TypeError"
| "py_contains k (JBool b) = Inl TypeError"
| "py_contains k (JInt n) = Inl TypeError"
| "py_contains k (JFloat r) = Inl TypeError"

text \<open>
  \<^verbatim>\<open>v[k]\<close> for a string \<open>k\<close>: lookup in a dict (\<^verbatim>\<open>KeyError\<close> when absent);
  a list or a string wants an integer index, the rest is not subscriptable.
\<close>

fun py_getitem :: "json \<Rightarrow> string \<Rightarrow> py_error + json" where
  "py_getitem (JObject kv) k = (case map_of kv k of None \<Rightarrow> Inl (KeyError k) | Some v \<Rightarrow> Inr v)"
| "py_getitem (JArray xs) k = Inl TypeError"
| "py_getitem (JString s) k = Inl TypeError"
| "py_getitem JNull k = Inl TypeError"
| "py_getitem (JBool b) k = Inl TypeError"
| "py_getitem (JInt n) k = Inl TypeError"
| "py_getitem (JFloat r) k = Inl TypeError"

text \<open>Decimal digits of a natural number and \<^verbatim>\<open>str\<close> of an integer.\<close>

fun str_of_nat :: "nat \<Rightarrow> string" where
  "str_of_nat n =
     (if n < 10 then [char_of (48 + n)]
      else str_of_nat (n div 10) @ [char_of (48 + n mod 10)])"

declare str_of_nat.simps [simp del]

definition str_of_int :: "int \<Rightarrow> string" where
  "str_of_int i = (if i < 0 then CHR ''-'' # str_of_nat (nat (- i)) else str_of_nat (nat i))"

text \<open>\<^verbatim>\<open>"%s" % v\<close>, that is \<^verbatim>\<open>str(v)\<close>.\<close>

fun py_str :: "pylib \<Rightarrow> json \<Rightarrow> string" where
  "py_str L (JString s) = s"
| "py_str L (JInt n) = str_of_int n"
| "py_str L (JBool b) = (if b then ''True'' else ''False'')"
| "py_str L JNull = ''None''"
| "py_str L (JFloat r) = py_repr L (JFloat r)"
| "py_str L (JArray xs) = py_repr L (JArray xs)"
| "py_str L (JObject kv) = py_repr L (JObject kv)"

text \<open>\<^verbatim>\<open>float(v)\<close>.\<close>

fun py_float :: "pylib \<Rightarrow> json \<Rightarrow> py_error + rat" where
  "py_float L (JInt n) = Inr (of_int n)"
| "py_float L (JFloat r) = Inr r"
| "py_float L (JBool b) = Inr (if b then 1 else 0)"
| "py_float L (JString s) = (case float_of_str L s of None \<Rightarrow> Inl ValueError | Some r \<Rightarrow> Inr r)"
| "py_float L JNull = Inl TypeError"
| "py_float L (JArray xs) = Inl TypeError"
| "py_float L (JObject kv) = Inl TypeError"

text \<open>\<^verbatim>\<open>100 * float(done) / float(total)\<close>: both conversions first, then the division.\<close>

definition percent_of :: "pylib \<Rightarrow> json \<Rightarrow> json \<Rightarrow> py_error + rat" where
  "percent_of L done_v total_v =
     rbind (py_float L done_v) (\<lambda>d.
     rbind (py_float L total_v) (\<lambda>t.
       if t = 0 then Inl ZeroDivisionError else Inr (100 * d / t)))"

section \<open>The log line processor\<close>

text \<open>
  What \<^verbatim>\<open>_process_stderr\<close> does to the outside: calls of the logger and calls of
  \<^verbatim>\<open>update_progress_callback\<close>, in order. Its outcome is the list of these calls and the
  exception it raised, if any. The HTTP requests of the updater are recorded as events of
  the same type.
\<close>

datatype level = Debug | Info | Warning

datatype event =
    Log level string
  | Progress string rat
  | HttpHead string
  | HttpGet string

type_synonym outcome = "event list \<times> py_error option"

text \<open>Sequencing of two blocks of statements: an exception in the first skips the second.\<close>

definition seq_out :: "outcome \<Rightarrow> outcome \<Rightarrow> outcome" where
  "seq_out a b = (case snd a of Some e \<Rightarrow> a | None \<Rightarrow> (fst a @ fst b, snd b))"

definition raise_or :: "py_error + 'a \<Rightarrow> ('a \<Rightarrow> outcome) \<Rightarrow> outcome" where
  "raise_or m f = (case m of Inl e \<Rightarrow> ([], Some e) | Inr x \<Rightarrow> f x)"

definition PARSE_FAILED :: string where
  "PARSE_FAILED =
     ''Failed to parse JSON log line. Ensure that ArtifactTool structured logging is enabled.''"

text \<open>
  Lines 103 to 107: the parse. A failure leaves \<^verbatim>\<open>json_line = None\<close> and logs; a line
  that parses to \<^verbatim>\<open>null\<close> gives the same \<^verbatim>\<open>None\<close> without the log call.
\<close>

definition parse_line :: "pylib \<Rightarrow> string \<Rightarrow> json \<times> event list" where
  "parse_line L line =
     (case json_loads L line of
        None \<Rightarrow> (JNull, [Log Debug PARSE_FAILED])
      | Some j \<Rightarrow> (j, []))"

text \<open>Line 110: \<^verbatim>\<open>json_line['@l'] if '@l' in json_line else "Information"\<close>, and line 113 alike.\<close>

definition get_or :: "json \<Rightarrow> string \<Rightarrow> json \<Rightarrow> py_error + json" where
  "get_or j k dflt =
     rbind (py_contains k j) (\<lambda>b. if b then py_getitem j k else Inr dflt)"

text \<open>Lines 109 to 124: the message field.\<close>

definition message_block :: "pylib \<Rightarrow> string \<Rightarrow> json \<Rightarrow> outcome" where
  "message_block L line json_line =
     raise_or (if json_line \<noteq> JNull then py_contains ''@m'' json_line else Inr False) (\<lambda>has_m.
       if has_m then
         raise_or (get_or json_line ''@l'' (JString ''Information'')) (\<lambda>log_level.
         raise_or (py_getitem json_line ''@m'') (\<lambda>message.
           if log_level \<in> set [JString ''Critical'', JString ''Error''] then
             raise_or (get_or json_line ''@x'' JNull) (\<lambda>ex.
               ([], Some (CLIError
                  (if py_truthy ex
                   then py_str L message @ [CHR 0x0A] @ py_str L ex
                   else py_str L message))))
           else if log_level = JString ''Warning'' then ([Log Warning (py_str L message)], None)
           else if log_level = JString ''Information'' then ([Log Info (py_str L message)], None)
           else ([Log Debug (py_str L message)], None)))
       else ([Log Debug line], None))"

text \<open>
  One of the three \<^verbatim>\<open>if event_name == ...\<close> statements of lines 129 to 145: the two
  fields are read, the percentage is computed and the callback is called.
\<close>

definition report :: "pylib \<Rightarrow> json \<Rightarrow> json \<Rightarrow> string \<Rightarrow> string \<Rightarrow> string \<Rightarrow> string \<Rightarrow> string \<Rightarrow> outcome" where
  "report L json_line event_name name done_key total_key label units =
     (if event_name = JString name then
        raise_or (py_getitem json_line done_key) (\<lambda>done_v.
        raise_or (py_getitem json_line total_key) (\<lambda>total_v.
        raise_or (percent_of L done_v total_v) (\<lambda>percent.
          ([Progress (label @ '': '' @ py_str L done_v @ ''/'' @ py_str L total_v @ '' '' @ units) percent],
           None))))
      else ([], None))"

text \<open>Lines 126 to 145: the event descriptor.\<close>

definition has_event_name :: "json \<Rightarrow> py_error + bool" where
  "has_event_name json_line =
     (if \<not> py_truthy json_line then Inr False
      else rbind (py_contains ''EventId'' json_line) (\<lambda>b.
        if \<not> b then Inr False
        else rbind (py_getitem json_line ''EventId'') (\<lambda>e. py_contains ''Name'' e)))"

definition event_block :: "pylib \<Rightarrow> json \<Rightarrow> outcome" where
  "event_block L json_line =
     raise_or (has_event_name json_line) (\<lambda>b.
       if b then
         raise_or (rbind (py_getitem json_line ''EventId'') (\<lambda>e. py_getitem e ''Name'')) (\<lambda>event_name.
           seq_out (report L json_line event_name ''ProcessingFiles''
                      ''ProcessedFiles'' ''TotalFiles'' ''Pre-upload processing'' ''files'')
          (seq_out (report L json_line event_name ''Uploading''
                      ''UploadedBytes'' ''TotalBytes'' ''Uploading'' ''bytes'')
                   (report L json_line event_name ''Downloading''
                      ''DownloadedBytes'' ''TotalBytes'' ''Downloading'' ''bytes'')))
       else ([], None))"

definition process_stderr :: "pylib \<Rightarrow> string \<Rightarrow> outcome" where
  "process_stderr L line =
     (let (json_line, logged) = parse_line L line
      in seq_out (logged, None)
           (seq_out (message_block L line json_line) (event_block L json_line)))"

section \<open>String methods\<close>

text \<open>\<^verbatim>\<open>s.strip(c)\<close> for a single character: every leading and trailing \<open>c\<close> is removed.\<close>

definition py_strip :: "char \<Rightarrow> string \<Rightarrow> string" where
  "py_strip c s = rev (dropWhile (\<lambda>x. x = c) (rev (dropWhile (\<lambda>x. x = c) s)))"

text \<open>
  \<^verbatim>\<open>s.replace(old, new)\<close>: the occurrences of \<open>old\<close> are replaced from left to right,
  without overlap; an empty \<open>old\<close> matches before every character and at the end.
\<close>

function py_replace :: "string \<Rightarrow> string \<Rightarrow> string \<Rightarrow> string" where
  "py_replace old new [] = (if old = [] then new else [])"
| "py_replace old new (c # cs) =
     (if old = [] then new @ c # py_replace old new cs
      else if prefix old (c # cs) then new @ py_replace old new (drop (length old) (c # cs))
      else c # py_replace old new cs)"
  by pat_completeness auto
termination
  by (relation "measure (\<lambda>(old, new, s). length s)") auto

text \<open>
  \<^verbatim>\<open>s.lower()\<close> on the code points below 256, which is what a header value holds:
  the letters A to Z and the capital letters of Latin-1 move up by 32.
\<close>

definition py_lower_char :: "char \<Rightarrow> char" where
  "py_lower_char c =
     (let n = (of_char c :: nat)
      in if (65 \<le> n \<and> n \<le> 90) \<or> (192 \<le> n \<and> n \<le> 222 \<and> n \<noteq> 215)
         then char_of (n + 32) else c)"

definition py_lower :: "string \<Rightarrow> string" where
  "py_lower s = map py_lower_char s"

section \<open>The updater\<close>

text \<open>
  The state that the module reads and changes: the process environment, which paths
  exist, and the calls it has made so far (logger calls and HTTP requests).
\<close>

record world =
  environ :: "string \<Rightarrow> string option"
  path_exists :: "string \<Rightarrow> bool"
  trace :: "event list"

record credentials =
  username :: string
  password :: string

text \<open>
  The collaborators outside the module, taken as given: \<^verbatim>\<open>tempfile.gettempdir\<close>,
  \<^verbatim>\<open>os.path.join\<close>, \<^verbatim>\<open>requests.head\<close> (the headers of the response),
  \<^verbatim>\<open>requests.get\<close> (its content), the extraction of a zip archive into a directory
  (the paths that exist afterwards, and the exception if one was raised) and
  \<^verbatim>\<open>_get_credentials\<close>.
\<close>

record host =
  gettempdir :: string
  path_join :: "string \<Rightarrow> string \<Rightarrow> string"
  requests_head :: "string \<Rightarrow> py_error + (string \<Rightarrow> string option)"
  requests_get :: "string \<Rightarrow> py_error + string"
  zip_extractall :: "string \<Rightarrow> string \<Rightarrow> (string \<Rightarrow> bool) \<Rightarrow> (string \<Rightarrow> bool) \<times> py_error option"
  get_credentials :: "string \<Rightarrow> py_error + credentials"

definition ARTIFACTTOOL_OVERRIDE_PATH_ENVKEY :: string where
  "ARTIFACTTOOL_OVERRIDE_PATH_ENVKEY = ''VSTS_ARTIFACTTOOL_OVERRIDE_PATH''"

definition ARTIFACTTOOL_OVERRIDE_URL_ENVKEY :: string where
  "ARTIFACTTOOL_OVERRIDE_URL_ENVKEY = ''VSTS_ARTIFACTTOOL_OVERRIDE_URL''"

definition DEFAULT_ARTIFACTTOOL_BINARY_URL :: string where
  "DEFAULT_ARTIFACTTOOL_BINARY_URL =
     ''https://zachtest1.blob.core.windows.net/test/artifacttool-win10-x64-Release.zip''"

definition emit :: "event \<Rightarrow> world \<Rightarrow> world" where
  "emit ev w = w\<lparr>trace := trace w @ [ev]\<rparr>"

definition quoted :: "string \<Rightarrow> string" where
  "quoted s = [CHR 0x27] @ s @ [CHR 0x27]"

text \<open>Line 53: \<^verbatim>\<open>.strip("\"").replace("0x", "").lower()\<close> on the ETag header.\<close>

definition etag_of_header :: "string \<Rightarrow> string" where
  "etag_of_header h = py_lower (py_replace ''0x'' [] (py_strip (CHR 0x22) h))"

definition binary_path_of :: "host \<Rightarrow> string \<Rightarrow> string" where
  "binary_path_of H etag =
     (let temp_dir = gettempdir H;
          tool_root = path_join H temp_dir ''ArtifactTool'';
          tool_dir = path_join H tool_root etag
      in path_join H (path_join H tool_dir ''artifacttool-win10-x64-Release'') ''ArtifactTool.exe'')"

definition update_artifacttool :: "host \<Rightarrow> world \<Rightarrow> string \<Rightarrow> world \<times> (py_error + string)" where
  "update_artifacttool H w team_instance =
     (let w1 = emit (Log Debug ''Checking for ArtifactTool updates'') w;
          artifacttool_binary_url =
            (case environ w1 ARTIFACTTOOL_OVERRIDE_URL_ENVKEY of
               Some u \<Rightarrow> u
             | None \<Rightarrow> DEFAULT_ARTIFACTTOOL_BINARY_URL);
          w2 =
            (case environ w1 ARTIFACTTOOL_OVERRIDE_URL_ENVKEY of
               Some u \<Rightarrow>
                 emit (Log Debug (''ArtifactTool download URL was overridden to '' @ quoted u
                   @ '' due to environment variable '' @ ARTIFACTTOOL_OVERRIDE_URL_ENVKEY)) w1
             | None \<Rightarrow>
                 emit (Log Debug (''Using default update URL '' @ quoted artifacttool_binary_url)) w1);
          w3 = emit (HttpHead artifacttool_binary_url) w2
      in case requests_head H artifacttool_binary_url of
           Inl e \<Rightarrow> (w3, Inl e)
         | Inr headers \<Rightarrow>
            (case headers ''ETag'' of
               None \<Rightarrow> (w3, Inl AttributeError)
             | Some h \<Rightarrow>
                (let etag = etag_of_header h;
                     w4 = emit (Log Debug (''Latest ArtifactTool is ETag '' @ quoted etag)) w3;
                     tool_dir = path_join H (path_join H (gettempdir H) ''ArtifactTool'') etag;
                     binary_path = binary_path_of H etag
                 in if path_exists w4 binary_path then
                      (emit (Log Debug (''Not downloading ArtifactTool as it already exists at ''
                         @ tool_dir)) w4, Inr binary_path)
                    else
                      (let w5 = emit (Log Debug (''Downloading ArtifactTool to '' @ tool_dir)) w4;
                           w6 = emit (HttpGet artifacttool_binary_url) w5
                       in case requests_get H artifacttool_binary_url of
                            Inl e \<Rightarrow> (w6, Inl e)
                          | Inr content \<Rightarrow>
                             (case zip_extractall H content tool_dir (path_exists w6) of
                                (fs, Some e) \<Rightarrow> (w6\<lparr>path_exists := fs\<rparr>, Inl e)
                              | (fs, None) \<Rightarrow> (w6\<lparr>path_exists := fs\<rparr>, Inr binary_path))))))"

definition get_latest_artifacttool :: "host \<Rightarrow> world \<Rightarrow> string \<Rightarrow> world \<times> (py_error + string)" where
  "get_latest_artifacttool H w team_instance =
     (case environ w ARTIFACTTOOL_OVERRIDE_PATH_ENVKEY of
        Some artifacttool_binary_override_path \<Rightarrow>
          (emit (Log Debug (''ArtifactTool path was overriden to ''
             @ quoted artifacttool_binary_override_path
             @ '' due to environment variable '' @ ARTIFACTTOOL_OVERRIDE_PATH_ENVKEY)) w,
           Inr artifacttool_binary_override_path)
      | None \<Rightarrow>
          (case update_artifacttool H (emit (Log Debug ''Checking for a new ArtifactTool'') w)
                  team_instance of
             (w', Inl e) \<Rightarrow> (w', Inl e)
           | (w', Inr artifacttool_binary_path) \<Rightarrow>
               (emit (Log Debug (''Using downloaded ArtifactTool from ''
                  @ quoted artifacttool_binary_path)) w',
                Inr artifacttool_binary_path)))"

section \<open>The invoker\<close>

text \<open>
  \<^verbatim>\<open>invoke_artifacttool\<close> ends in \<^verbatim>\<open>self.run(command_args, new_env,
  initial_progress_message, self._process_stderr)\<close>. The runner is inherited from a class
  outside the module, so the model returns the arguments of that call.
\<close>

record run_call =
  command_args :: "string list"
  new_env :: "string \<Rightarrow> string option"
  initial_progress_message :: string

definition PATVAR :: string where
  "PATVAR = ''VSTS_ARTIFACTTOOL_PATVAR''"

definition invoke_artifacttool ::
  "host \<Rightarrow> world \<Rightarrow> string \<Rightarrow> string list \<Rightarrow> string \<Rightarrow> world \<times> (py_error + run_call)" where
  "invoke_artifacttool H w team_instance args initial_message =
     (case get_latest_artifacttool H w team_instance of
        (w', Inl e) \<Rightarrow> (w', Inl e)
      | (w', Inr artifacttool_path) \<Rightarrow>
         (case get_credentials H team_instance of
            Inl e \<Rightarrow> (w', Inl e)
          | Inr creds \<Rightarrow>
             (w', Inr \<lparr>command_args = [artifacttool_path] @ args,
                       new_env = (environ w')(PATVAR \<mapsto> password creds),
                       initial_progress_message = initial_message\<rparr>)))"

definition download_upack ::
  "host \<Rightarrow> world \<Rightarrow> string \<Rightarrow> string \<Rightarrow> string \<Rightarrow> string \<Rightarrow> string \<Rightarrow> world \<times> (py_error + run_call)" where
  "download_upack H w team_instance feed package_name package_version path =
     invoke_artifacttool H w team_instance
       [''upack'', ''download'', ''--service'', team_instance, ''--patvar'', PATVAR,
        ''--feed'', feed, ''--package-name'', package_name,
        ''--package-version'', package_version, ''--path'', path]
       ''Downloading''"

text \<open>The description is optional: \<^verbatim>\<open>None\<close> and the empty string add nothing.\<close>

definition publish_upack ::
  "host \<Rightarrow> world \<Rightarrow> string \<Rightarrow> string \<Rightarrow> string \<Rightarrow> string \<Rightarrow> string option \<Rightarrow> string \<Rightarrow> world \<times> (py_error + run_call)" where
  "publish_upack H w team_instance feed package_name package_version description path =
     (let args = [''upack'', ''publish'', ''--service'', team_instance, ''--patvar'', PATVAR,
                  ''--feed'', feed, ''--package-name'', package_name,
                  ''--package-version'', package_version, ''--path'', path];
          args' = (case description of
                     None \<Rightarrow> args
                   | Some d \<Rightarrow> if d \<noteq> [] then args @ [''--description'', d] else args)
      in invoke_artifacttool H w team_instance args' ''Publishing'')"

section \<open>Sample inputs\<close>

text \<open>
  The log lines of the specification's examples, with the values \<^verbatim>\<open>json.loads\<close> returns
  for them; any other line is taken not to parse.
\<close>

definition LINE_ERROR :: string where
  \<open>LINE_ERROR = ''{"@l":"Error","@m":"X"}''\<close>

definition LINE_CRITICAL :: string where
  \<open>LINE_CRITICAL = ''{"@l":"Critical","@m":"X","@x":"trace"}''\<close>

definition LINE_DOWNLOADING :: string where
  \<open>LINE_DOWNLOADING =
     ''{"EventId":{"Name":"Downloading"},"DownloadedBytes":50,"TotalBytes":200}''\<close>

definition LINE_WARNING_UPLOADING :: string where
  \<open>LINE_WARNING_UPLOADING =
     ''{"@l":"Warning","@m":"slow","EventId":{"Name":"Uploading"},"UploadedBytes":1,"TotalBytes":4}''\<close>

definition LINE_ERROR_DOWNLOADING :: string where
  \<open>LINE_ERROR_DOWNLOADING =
     ''{"@l":"Error","@m":"X","EventId":{"Name":"Downloading"},"DownloadedBytes":50,"TotalBytes":200}''\<close>

definition LINE_CRITICAL_UPLOADING :: string where
  \<open>LINE_CRITICAL_UPLOADING =
     ''{"@l":"Critical","@m":"disk full","EventId":{"Name":"Uploading"},"UploadedBytes":1,"TotalBytes":4}''\<close>

definition OBJ_CRITICAL :: "(string \<times> json) list" where
  "OBJ_CRITICAL =
     [(''@l'', JString ''Critical''), (''@m'', JString ''X''), (''@x'', JString ''trace'')]"

definition OBJ_DOWNLOADING :: "(string \<times> json) list" where
  "OBJ_DOWNLOADING =
     [(''EventId'', JObject [(''Name'', JString ''Downloading'')]),
      (''DownloadedBytes'', JInt 50), (''TotalBytes'', JInt 200)]"

definition OBJ_WARNING_UPLOADING :: "(string \<times> json) list" where
  "OBJ_WARNING_UPLOADING =
     [(''@l'', JString ''Warning''), (''@m'', JString ''slow''),
      (''EventId'', JObject [(''Name'', JString ''Uploading'')]),
      (''UploadedBytes'', JInt 1), (''TotalBytes'', JInt 4)]"

definition OBJ_ERROR_DOWNLOADING :: "(string \<times> json) list" where
  "OBJ_ERROR_DOWNLOADING =
     [(''@l'', JString ''Error''), (''@m'', JString ''X''),
      (''EventId'', JObject [(''Name'', JString ''Downloading'')]),
      (''DownloadedBytes'', JInt 50), (''TotalBytes'', JInt 200)]"

definition OBJ_CRITICAL_UPLOADING :: "(string \<times> json) list" where
  "OBJ_CRITICAL_UPLOADING =
     [(''@l'', JString ''Critical''), (''@m'', JString ''disk full''),
      (''EventId'', JObject [(''Name'', JString ''Uploading'')]),
      (''UploadedBytes'', JInt 1), (''TotalBytes'', JInt 4)]"

definition sample_loads :: "string \<Rightarrow> json option" where
  "sample_loads = map_of
     [(LINE_ERROR, JObject [(''@l'', JString ''Error''), (''@m'', JString ''X'')]),
      (LINE_CRITICAL, JObject OBJ_CRITICAL),
      (LINE_DOWNLOADING, JObject OBJ_DOWNLOADING),
      (LINE_WARNING_UPLOADING, JObject OBJ_WARNING_UPLOADING),
      (LINE_ERROR_DOWNLOADING, JObject OBJ_ERROR_DOWNLOADING),
      (LINE_CRITICAL_UPLOADING, JObject OBJ_CRITICAL_UPLOADING),
      (''123'', JInt 123),
      (''null'', JNull)]"

definition sample_lib :: pylib where
  "sample_lib = \<lparr>json_loads = sample_loads, py_repr = (\<lambda>v. []), float_of_str = (\<lambda>s. None)\<rparr>"


text \<open>The HTTP requests among the recorded calls.\<close>

fun is_request :: "event \<Rightarrow> bool" where
  "is_request (HttpHead u) = True"
| "is_request (HttpGet u) = True"
| "is_request (Log lv s) = False"
| "is_request (Progress s p) = False"

text \<open>
  The version tag as the specification words it, for comparison with \<open>etag_of_header\<close>:
  surrounding quotes stripped, the prefix \<^verbatim>\<open>0x\<close> removed where the string starts with it,
  lowercased.
\<close>

definition strip_known_prefix :: "string \<Rightarrow> string" where
  "strip_known_prefix s = (if prefix ''0x'' s then drop 2 s else s)"

definition version_tag_spec :: "string \<Rightarrow> string" where
  "version_tag_spec h = py_lower (strip_known_prefix (py_strip (CHR 0x22) h))"

text \<open>
  A sample host: POSIX paths under \<^verbatim>\<open>/tmp\<close>, a server that answers \<^verbatim>\<open>HEAD\<close> with an entity
  tag and refuses \<^verbatim>\<open>GET\<close>, and a credential. Two worlds: one where the binary for that tag
  is in the cache, one where the path override is set.
\<close>

definition SAMPLE_ETAG :: string where
  \<open>SAMPLE_ETAG = ''"0x8D5A1B2C"''\<close>

definition ETAG_TWO_PREFIXES :: string where
  \<open>ETAG_TWO_PREFIXES = ''"0x8D50x1F"''\<close>

definition SAMPLE_BINARY :: string where
  "SAMPLE_BINARY = ''/tmp/ArtifactTool/8d5a1b2c/artifacttool-win10-x64-Release/ArtifactTool.exe''"

definition SAMPLE_OVERRIDE :: string where
  "SAMPLE_OVERRIDE = ''C:/tools/ArtifactTool.exe''"

definition SAMPLE_INSTANCE :: string where
  "SAMPLE_INSTANCE = ''https://myaccount.visualstudio.com''"

definition sample_credentials :: credentials where
  "sample_credentials = \<lparr>username = ''user'', password = ''s3cret''\<rparr>"

definition other_credentials :: credentials where
  "other_credentials = \<lparr>username = ''user'', password = ''hunter2''\<rparr>"

definition sample_host :: host where
  "sample_host =
     \<lparr>gettempdir = ''/tmp'',
      path_join = (\<lambda>a b. a @ ''/'' @ b),
      requests_head = (\<lambda>url. Inr (map_of [(''ETag'', SAMPLE_ETAG)])),
      requests_get = (\<lambda>url. Inl (OtherError ''ConnectionError'')),
      zip_extractall = (\<lambda>content dir fs. (fs, None)),
      get_credentials = (\<lambda>team_instance. Inr sample_credentials)\<rparr>"

definition cached_world :: world where
  "cached_world =
     \<lparr>environ = Map.empty, path_exists = (\<lambda>p. p = SAMPLE_BINARY), trace = []\<rparr>"

definition override_world :: world where
  "override_world =
     \<lparr>environ = map_of [(ARTIFACTTOOL_OVERRIDE_PATH_ENVKEY, SAMPLE_OVERRIDE)],
      path_exists = (\<lambda>p. False), trace = []\<rparr>"

section \<open>Properties of the log line processor\<close>

lemmas block_defs = process_stderr_def parse_line_def message_block_def event_block_def
  has_event_name_def report_def percent_of_def get_or_def raise_or_def seq_out_def rbind_def

lemma process_parsed:
  "json_loads L line = Some j \<Longrightarrow>
   process_stderr L line = seq_out (message_block L line j) (event_block L j)"
  by (simp add: process_stderr_def parse_line_def seq_out_def)











lemma sublist_mid: "sublist b (a @ b @ c)"
  by (auto simp: sublist_def)

lemma sublist_mid2: "sublist d (a @ b @ c @ d @ e)"
  using sublist_mid [of d "a @ b @ c" e] by simp

text \<open>
  Claim C4. A line that \<^verbatim>\<open>json.loads\<close> rejects is logged as debug text, after the debug
  note about the failed parse: the progress callback is not called and nothing is raised.
\<close>

theorem unparsable_line_is_debug_text:
  "json_loads L line = None \<Longrightarrow>
   process_stderr L line = ([Log Debug PARSE_FAILED, Log Debug line], None)"
  by (simp add: block_defs)

theorem unparsable_line_is_debug_text_witness:
  "json_loads sample_lib ''hello world'' = None \<and>
   process_stderr sample_lib ''hello world'' =
     ([Log Debug PARSE_FAILED, Log Debug ''hello world''], None)"
proof -
  have h: "json_loads sample_lib ''hello world'' = None"
    by code_simp
  show ?thesis using h unparsable_line_is_debug_text [OF h] by simp
qed



text \<open>The two examples of the specification, evaluated.\<close>

lemma error_example: "process_stderr sample_lib LINE_ERROR = ([], Some (CLIError ''X''))"
  by code_simp

lemma critical_example:
  "process_stderr sample_lib LINE_CRITICAL = ([], Some (CLIError (''X'' @ [CHR 0x0A] @ ''trace'')))"
  by code_simp







text \<open>The example of the specification, evaluated: the percentage is 25.\<close>

lemma downloading_example:
  "process_stderr sample_lib LINE_DOWNLOADING =
     ([Log Debug LINE_DOWNLOADING, Progress ''Downloading: 50/200 bytes'' 25], None)"
  by code_simp

text \<open>
  Claim C10, as stated, fails: the line \<^verbatim>\<open>null\<close> parses, to \<^verbatim>\<open>None\<close>, which line 109 cannot
  tell from a failed parse; it is logged as debug text and nothing is raised.
\<close>

theorem null_line_counterexample:
  "json_loads sample_lib ''null'' = Some JNull \<and>
   process_stderr sample_lib ''null'' = ([Log Debug ''null''], None)"
  by code_simp

text \<open>
  Claim C10, amended. What a line that parses to something other than an object does:
  a boolean or a number raises \<^verbatim>\<open>TypeError\<close> at the membership test of line 109;
  \<^verbatim>\<open>null\<close> is logged as debug text; a string or a list is logged as debug text too unless
  it contains \<^verbatim>\<open>@m\<close> (\<^verbatim>\<open>TypeError\<close> at the subscript of line 110 or 111) or \<^verbatim>\<open>EventId\<close>
  (\<^verbatim>\<open>TypeError\<close> at the subscript of line 126, after the debug call).
\<close>

theorem non_object_line:
  assumes "json_loads L line = Some j"
  shows "process_stderr L line =
     (case j of
        JNull \<Rightarrow> ([Log Debug line], None)
      | JBool b \<Rightarrow> ([], Some TypeError)
      | JInt n \<Rightarrow> ([], Some TypeError)
      | JFloat r \<Rightarrow> ([], Some TypeError)
      | JString s \<Rightarrow>
          if sublist ''@m'' s then ([], Some TypeError)
          else if sublist ''EventId'' s then ([Log Debug line], Some TypeError)
          else ([Log Debug line], None)
      | JArray xs \<Rightarrow>
          if JString ''@m'' \<in> set xs then ([], Some TypeError)
          else if JString ''EventId'' \<in> set xs then ([Log Debug line], Some TypeError)
          else ([Log Debug line], None)
      | JObject kv \<Rightarrow> seq_out (message_block L line j) (event_block L j))"
proof (cases j)
  case (JString s)
  have "s \<noteq> []" if "sublist ''EventId'' s"
    using that by auto
  then show ?thesis
    by (simp add: process_parsed [OF assms] JString message_block_def event_block_def
        has_event_name_def get_or_def raise_or_def seq_out_def rbind_def)
next
  case (JArray xs)
  have "xs \<noteq> []" if "JString ''EventId'' \<in> set xs"
    using that by auto
  then show ?thesis
    by (simp add: process_parsed [OF assms] JArray message_block_def event_block_def
        has_event_name_def get_or_def raise_or_def seq_out_def rbind_def)
qed (simp_all add: process_parsed [OF assms] message_block_def event_block_def
        has_event_name_def raise_or_def seq_out_def)

theorem non_object_line_witness:
  "json_loads sample_lib ''123'' = Some (JInt 123) \<and>
   process_stderr sample_lib ''123'' = ([], Some TypeError) \<and>
   json_loads sample_lib ''null'' = Some JNull \<and>
   process_stderr sample_lib ''null'' = ([Log Debug ''null''], None)"
proof -
  have h1: "json_loads sample_lib ''123'' = Some (JInt 123)"
    by code_simp
  have h2: "json_loads sample_lib ''null'' = Some JNull"
    by code_simp
  from non_object_line [OF h1] non_object_line [OF h2] h1 h2 show ?thesis by simp
qed

section \<open>Properties of the updater\<close>

lemma update_artifacttool_environ:
  "environ (fst (update_artifacttool H w team_instance)) = environ w"
  by (simp add: update_artifacttool_def emit_def Let_def
      split: sum.splits option.splits prod.splits)

lemma get_latest_artifacttool_environ:
  "environ (fst (get_latest_artifacttool H w team_instance)) = environ w"
proof (cases "environ w ARTIFACTTOOL_OVERRIDE_PATH_ENVKEY")
  case None
  obtain w' r where u:
    "update_artifacttool H (emit (Log Debug ''Checking for a new ArtifactTool'') w) team_instance
       = (w', r)"
    by (cases "update_artifacttool H (emit (Log Debug ''Checking for a new ArtifactTool'') w)
        team_instance")
  from update_artifacttool_environ
    [of H "emit (Log Debug ''Checking for a new ArtifactTool'') w" team_instance] u
  have "environ w' = environ w"
    by (simp add: emit_def)
  with None u show ?thesis
    by (simp add: get_latest_artifacttool_def emit_def split: sum.splits)
next
  case (Some p)
  then show ?thesis
    by (simp add: get_latest_artifacttool_def emit_def)
qed

lemma update_artifacttool_ignores_credentials:
  "update_artifacttool (H\<lparr>get_credentials := g\<rparr>) w team_instance =
   update_artifacttool H w team_instance"
  by (simp add: update_artifacttool_def binary_path_of_def Let_def
      cong: sum.case_cong option.case_cong if_cong prod.case_cong)

lemma get_latest_artifacttool_ignores_credentials:
  "get_latest_artifacttool (H\<lparr>get_credentials := g\<rparr>) w team_instance =
   get_latest_artifacttool H w team_instance"
  unfolding get_latest_artifacttool_def update_artifacttool_ignores_credentials
  by (rule refl)

text \<open>
  Claim C6. When \<^verbatim>\<open>VSTS_ARTIFACTTOOL_OVERRIDE_PATH\<close> is set, \<^verbatim>\<open>get_latest_artifacttool\<close>
  returns its value as it is. The only call made is one debug log: no HTTP request is
  recorded, and neither the host nor the file system is consulted.
\<close>

theorem override_path_returned_verbatim:
  assumes "environ w ARTIFACTTOOL_OVERRIDE_PATH_ENVKEY = Some p"
  shows "get_latest_artifacttool H w team_instance =
           (w\<lparr>trace := trace w @
              [Log Debug (''ArtifactTool path was overriden to '' @ quoted p
                 @ '' due to environment variable VSTS_ARTIFACTTOOL_OVERRIDE_PATH'')]\<rparr>, Inr p) \<and>
         filter is_request (trace (fst (get_latest_artifacttool H w team_instance))) =
           filter is_request (trace w)"
  using assms
  by (simp add: get_latest_artifacttool_def emit_def ARTIFACTTOOL_OVERRIDE_PATH_ENVKEY_def)

theorem override_path_returned_verbatim_witness:
  "environ override_world ARTIFACTTOOL_OVERRIDE_PATH_ENVKEY = Some SAMPLE_OVERRIDE \<and>
   \<not> path_exists override_world SAMPLE_OVERRIDE \<and>
   snd (get_latest_artifacttool sample_host override_world SAMPLE_INSTANCE) = Inr SAMPLE_OVERRIDE \<and>
   filter is_request (trace (fst (get_latest_artifacttool sample_host override_world SAMPLE_INSTANCE)))
     = []"
proof -
  have h: "environ override_world ARTIFACTTOOL_OVERRIDE_PATH_ENVKEY = Some SAMPLE_OVERRIDE"
    by (simp add: override_world_def)
  have n: "\<not> path_exists override_world SAMPLE_OVERRIDE" and t: "trace override_world = []"
    by (simp_all add: override_world_def)
  from override_path_returned_verbatim [OF h, of sample_host SAMPLE_INSTANCE] h n t
  show ?thesis by simp
qed

text \<open>
  Claim C7. With no path override, a \<^verbatim>\<open>HEAD\<close> answer that carries an entity tag, and the
  binary path for that tag present on disk, \<^verbatim>\<open>get_latest_artifacttool\<close> returns that path.
  The only request recorded is the one \<^verbatim>\<open>HEAD\<close>; no \<^verbatim>\<open>GET\<close> is made, whatever the server
  would answer, and the file system is not changed.
\<close>

theorem cached_binary_not_downloaded:
  assumes "environ w ARTIFACTTOOL_OVERRIDE_PATH_ENVKEY = None"
    and "url = (case environ w ARTIFACTTOOL_OVERRIDE_URL_ENVKEY of
                  Some u \<Rightarrow> u | None \<Rightarrow> DEFAULT_ARTIFACTTOOL_BINARY_URL)"
    and "requests_head H url = Inr headers"
    and "headers ''ETag'' = Some h"
    and "path_exists w (binary_path_of H (etag_of_header h))"
  shows "snd (get_latest_artifacttool H w team_instance) = Inr (binary_path_of H (etag_of_header h)) \<and>
         filter is_request (trace (fst (get_latest_artifacttool H w team_instance))) =
           filter is_request (trace w) @ [HttpHead url] \<and>
         path_exists (fst (get_latest_artifacttool H w team_instance)) = path_exists w"
  using assms
  by (cases "environ w ARTIFACTTOOL_OVERRIDE_URL_ENVKEY")
     (simp_all add: get_latest_artifacttool_def update_artifacttool_def emit_def Let_def)

theorem cached_binary_not_downloaded_witness:
  "environ cached_world ARTIFACTTOOL_OVERRIDE_PATH_ENVKEY = None \<and>
   requests_head sample_host DEFAULT_ARTIFACTTOOL_BINARY_URL = Inr (map_of [(''ETag'', SAMPLE_ETAG)]) \<and>
   binary_path_of sample_host (etag_of_header SAMPLE_ETAG) = SAMPLE_BINARY \<and>
   path_exists cached_world SAMPLE_BINARY \<and>
   snd (get_latest_artifacttool sample_host cached_world SAMPLE_INSTANCE) = Inr SAMPLE_BINARY \<and>
   filter is_request (trace (fst (get_latest_artifacttool sample_host cached_world SAMPLE_INSTANCE)))
     = [HttpHead DEFAULT_ARTIFACTTOOL_BINARY_URL]"
proof -
  have h1: "environ cached_world ARTIFACTTOOL_OVERRIDE_PATH_ENVKEY = None"
    by (simp add: cached_world_def)
  have h2: "DEFAULT_ARTIFACTTOOL_BINARY_URL =
      (case environ cached_world ARTIFACTTOOL_OVERRIDE_URL_ENVKEY of
         Some u \<Rightarrow> u | None \<Rightarrow> DEFAULT_ARTIFACTTOOL_BINARY_URL)"
    by (simp add: cached_world_def)
  have h3: "requests_head sample_host DEFAULT_ARTIFACTTOOL_BINARY_URL =
      Inr (map_of [(''ETag'', SAMPLE_ETAG)])"
    by (simp add: sample_host_def)
  have h4: "map_of [(''ETag'', SAMPLE_ETAG)] ''ETag'' = Some SAMPLE_ETAG"
    by simp
  have b: "binary_path_of sample_host (etag_of_header SAMPLE_ETAG) = SAMPLE_BINARY"
    by code_simp
  have h5: "path_exists cached_world (binary_path_of sample_host (etag_of_header SAMPLE_ETAG))"
    by (simp add: b) (simp add: cached_world_def)
  have t: "trace cached_world = []"
    by (simp add: cached_world_def)
  from cached_binary_not_downloaded [OF h1 h2 h3 h4 h5, of SAMPLE_INSTANCE] h1 h3 h5 b t
  show ?thesis by simp
qed

subsection \<open>The version tag\<close>

lemma py_replace_absent:
  "old \<noteq> [] \<Longrightarrow> \<not> sublist old s \<Longrightarrow> py_replace old new s = s"
proof (induction s)
  case Nil
  then show ?case by simp
next
  case (Cons c cs)
  from Cons.prems have "\<not> prefix old (c # cs)" and "\<not> sublist old cs"
    by (auto simp: sublist_Cons_right)
  with Cons show ?case by simp
qed

lemma length_py_replace_le: "length (py_replace old [] s) \<le> length s"
  by (induction old "[] :: string" s rule: py_replace.induct) (auto simp: le_diff_conv)

lemma length_py_replace_less:
  "old \<noteq> [] \<Longrightarrow> sublist old s \<Longrightarrow> length (py_replace old [] s) < length s"
proof (induction s)
  case Nil
  then show ?case by simp
next
  case (Cons c cs)
  show ?case
  proof (cases "prefix old (c # cs)")
    case True
    have "length (py_replace old [] (drop (length old) (c # cs))) \<le> length (c # cs) - length old"
      using length_py_replace_le [of old "drop (length old) (c # cs)"] by simp
    moreover have "0 < length old"
      using Cons.prems(1) by simp
    moreover have "length old \<le> length (c # cs)"
      using True by (rule prefix_length_le)
    ultimately have "length (py_replace old [] (drop (length old) (c # cs))) < length (c # cs)"
      by arith
    then show ?thesis
      using True Cons.prems(1) by simp
  next
    case False
    with Cons.prems have "sublist old cs"
      by (simp add: sublist_Cons_right)
    with Cons False show ?thesis by simp
  qed
qed

lemma length_py_lower: "length (py_lower s) = length s"
  by (simp add: py_lower_def)

lemma lower_replace_same:
  "py_lower (py_replace ''0x'' [] r) = py_lower r \<longleftrightarrow> \<not> sublist ''0x'' r"
proof
  assume eq: "py_lower (py_replace ''0x'' [] r) = py_lower r"
  show "\<not> sublist ''0x'' r"
  proof
    assume "sublist ''0x'' r"
    then have "length (py_replace ''0x'' [] r) < length r"
      by (intro length_py_replace_less) simp_all
    moreover from eq have "length (py_replace ''0x'' [] r) = length r"
      using length_py_lower by metis
    ultimately show False by simp
  qed
next
  assume "\<not> sublist ''0x'' r"
  then show "py_lower (py_replace ''0x'' [] r) = py_lower r"
    by (simp add: py_replace_absent)
qed

lemma py_replace_leading: "py_replace ''0x'' [] (''0x'' @ r) = py_replace ''0x'' [] r"
  by simp

text \<open>
  Claim C8, as stated, fails: \<^verbatim>\<open>replace\<close> removes \<^verbatim>\<open>0x\<close> wherever it occurs, so a tag with
  a second occurrence loses that one as well.
\<close>

theorem version_tag_counterexample:
  "etag_of_header ETAG_TWO_PREFIXES = ''8d51f'' \<and>
   version_tag_spec ETAG_TWO_PREFIXES = ''8d50x1f''"
  by code_simp

text \<open>
  Claim C8, amended. The version tag is the header value with every leading and trailing
  quote stripped, every occurrence of \<^verbatim>\<open>0x\<close> (found from left to right) removed, and
  lowercased. It is the tag of the specification's wording exactly when \<^verbatim>\<open>0x\<close> does not
  occur after a leading \<^verbatim>\<open>0x\<close>.
\<close>

theorem version_tag_removes_every_0x:
  "etag_of_header h = py_lower (py_replace ''0x'' [] (py_strip (CHR 0x22) h)) \<and>
   (etag_of_header h = version_tag_spec h \<longleftrightarrow>
      \<not> sublist ''0x'' (strip_known_prefix (py_strip (CHR 0x22) h)))"
proof (cases "prefix ''0x'' (py_strip (CHR 0x22) h)")
  case True
  then obtain r where r: "py_strip (CHR 0x22) h = ''0x'' @ r"
    by (auto simp: prefix_def)
  have "py_replace ''0x'' [] (''0x'' @ r) = py_replace ''0x'' [] r"
    by (rule py_replace_leading)
  then show ?thesis
    using lower_replace_same [of r]
    by (simp add: etag_of_header_def version_tag_spec_def strip_known_prefix_def r)
next
  case False
  then show ?thesis
    using lower_replace_same [of "py_strip (CHR 0x22) h"]
    by (simp add: etag_of_header_def version_tag_spec_def strip_known_prefix_def)
qed

theorem version_tag_removes_every_0x_witness:
  "\<not> sublist ''0x'' (strip_known_prefix (py_strip (CHR 0x22) SAMPLE_ETAG)) \<and>
   etag_of_header SAMPLE_ETAG = version_tag_spec SAMPLE_ETAG \<and>
   etag_of_header SAMPLE_ETAG = ''8d5a1b2c'' \<and>
   sublist ''0x'' (strip_known_prefix (py_strip (CHR 0x22) ETAG_TWO_PREFIXES)) \<and>
   etag_of_header ETAG_TWO_PREFIXES \<noteq> version_tag_spec ETAG_TWO_PREFIXES"
proof -
  have a: "\<not> sublist ''0x'' (strip_known_prefix (py_strip (CHR 0x22) SAMPLE_ETAG))"
    by code_simp
  have b: "sublist ''0x'' (strip_known_prefix (py_strip (CHR 0x22) ETAG_TWO_PREFIXES))"
    by code_simp
  have c: "etag_of_header SAMPLE_ETAG = ''8d5a1b2c''"
    by code_simp
  from version_tag_removes_every_0x [of SAMPLE_ETAG] a
  have d: "etag_of_header SAMPLE_ETAG = version_tag_spec SAMPLE_ETAG"
    by blast
  from version_tag_removes_every_0x [of ETAG_TWO_PREFIXES] b
  have e: "etag_of_header ETAG_TWO_PREFIXES \<noteq> version_tag_spec ETAG_TWO_PREFIXES"
    by blast
  from a b c d e show ?thesis by blast
qed

section \<open>Properties of the invoker\<close>

lemma invoke_artifacttool_reaches_run:
  assumes "snd (get_latest_artifacttool H w team_instance) = Inr tool"
    and "get_credentials H team_instance = Inr c"
  shows "snd (invoke_artifacttool H w team_instance args label) =
     Inr \<lparr>command_args = tool # args,
          new_env = (environ w)(PATVAR \<mapsto> password c),
          initial_progress_message = label\<rparr>"
proof -
  obtain w' where g: "get_latest_artifacttool H w team_instance = (w', Inr tool)"
    using assms(1) by (cases "get_latest_artifacttool H w team_instance") simp
  from get_latest_artifacttool_environ [of H w team_instance] g
  have "environ w' = environ w" by simp
  with g assms(2) show ?thesis
    by (simp add: invoke_artifacttool_def)
qed

text \<open>
  Claim C3. When the updater returns a tool path and a credential is resolved,
  \<^verbatim>\<open>download_upack\<close> and \<^verbatim>\<open>publish_upack\<close> reach the runner with an environment that is the
  process environment plus \<^verbatim>\<open>VSTS_ARTIFACTTOOL_PATVAR\<close> set to the password, and with an
  argument list built from the tool path, fixed words and the caller's arguments only. A
  run that differs only in the credential passes the same argument list, and the password
  is an element of the list only if it equals one of those other elements.
\<close>

theorem credential_only_in_environment:
  assumes "snd (get_latest_artifacttool H w team_instance) = Inr tool"
    and "get_credentials H team_instance = Inr c"
    and "g team_instance = Inr c'"
  shows "\<exists>d p d' p'.
     snd (download_upack H w team_instance feed name version path) = Inr d \<and>
     snd (publish_upack H w team_instance feed name version description path) = Inr p \<and>
     snd (download_upack (H\<lparr>get_credentials := g\<rparr>) w team_instance feed name version path)
       = Inr d' \<and>
     snd (publish_upack (H\<lparr>get_credentials := g\<rparr>) w team_instance feed name version
            description path) = Inr p' \<and>
     new_env d = (environ w)(PATVAR \<mapsto> password c) \<and>
     new_env p = (environ w)(PATVAR \<mapsto> password c) \<and>
     new_env d' = (environ w)(PATVAR \<mapsto> password c') \<and>
     new_env p' = (environ w)(PATVAR \<mapsto> password c') \<and>
     command_args d' = command_args d \<and>
     command_args p' = command_args p \<and>
     command_args d =
       [tool, ''upack'', ''download'', ''--service'', team_instance,
        ''--patvar'', ''VSTS_ARTIFACTTOOL_PATVAR'', ''--feed'', feed, ''--package-name'', name,
        ''--package-version'', version, ''--path'', path] \<and>
     command_args p =
       [tool, ''upack'', ''publish'', ''--service'', team_instance,
        ''--patvar'', ''VSTS_ARTIFACTTOOL_PATVAR'', ''--feed'', feed, ''--package-name'', name,
        ''--package-version'', version, ''--path'', path]
       @ (case description of
            None \<Rightarrow> []
          | Some desc \<Rightarrow> if desc = [] then [] else [''--description'', desc]) \<and>
     (password c \<in> set (command_args d) \<longrightarrow>
        password c \<in> {tool, team_instance, feed, name, version, path,
          ''upack'', ''download'', ''--service'', ''--patvar'', ''VSTS_ARTIFACTTOOL_PATVAR'',
          ''--feed'', ''--package-name'', ''--package-version'', ''--path''})"
proof -
  let ?H' = "H\<lparr>get_credentials := g\<rparr>"
  have t': "snd (get_latest_artifacttool ?H' w team_instance) = Inr tool"
    using assms(1) by (simp add: get_latest_artifacttool_ignores_credentials)
  have c': "get_credentials ?H' team_instance = Inr c'"
    using assms(3) by simp
  note r = invoke_artifacttool_reaches_run [OF assms(1,2)]
  note r' = invoke_artifacttool_reaches_run [OF t' c']
  show ?thesis
    by (cases description)
       (auto simp: download_upack_def publish_upack_def r r' PATVAR_def Let_def)
qed

theorem credential_only_in_environment_witness:
  "snd (get_latest_artifacttool sample_host override_world SAMPLE_INSTANCE) = Inr SAMPLE_OVERRIDE \<and>
   get_credentials sample_host SAMPLE_INSTANCE = Inr sample_credentials \<and>
   password sample_credentials = ''s3cret'' \<and> password other_credentials = ''hunter2'' \<and>
   (\<exists>d p d' p'.
     snd (download_upack sample_host override_world SAMPLE_INSTANCE ''feed'' ''pkg'' ''1.0.0'' ''dir'')
       = Inr d \<and>
     snd (publish_upack sample_host override_world SAMPLE_INSTANCE ''feed'' ''pkg'' ''1.0.0''
            (Some ''first'') ''dir'') = Inr p \<and>
     snd (download_upack (sample_host\<lparr>get_credentials := (\<lambda>t. Inr other_credentials)\<rparr>)
            override_world SAMPLE_INSTANCE ''feed'' ''pkg'' ''1.0.0'' ''dir'') = Inr d' \<and>
     snd (publish_upack (sample_host\<lparr>get_credentials := (\<lambda>t. Inr other_credentials)\<rparr>)
            override_world SAMPLE_INSTANCE ''feed'' ''pkg'' ''1.0.0'' (Some ''first'') ''dir'')
       = Inr p' \<and>
     new_env d = (environ override_world)(PATVAR \<mapsto> ''s3cret'') \<and>
     new_env p = (environ override_world)(PATVAR \<mapsto> ''s3cret'') \<and>
     new_env d' = (environ override_world)(PATVAR \<mapsto> ''hunter2'') \<and>
     new_env p' = (environ override_world)(PATVAR \<mapsto> ''hunter2'') \<and>
     command_args d' = command_args d \<and> command_args p' = command_args p \<and>
     ''s3cret'' \<notin> set (command_args d) \<and> ''s3cret'' \<notin> set (command_args p))"
proof -
  have h1: "snd (get_latest_artifacttool sample_host override_world SAMPLE_INSTANCE)
      = Inr SAMPLE_OVERRIDE"
    by code_simp
  have h2: "get_credentials sample_host SAMPLE_INSTANCE = Inr sample_credentials"
    by (simp add: sample_host_def)
  have h3: "(\<lambda>t. Inr other_credentials) SAMPLE_INSTANCE
      = (Inr other_credentials :: py_error + credentials)"
    by simp
  have pw: "password sample_credentials = ''s3cret''" "password other_credentials = ''hunter2''"
    by (simp_all add: sample_credentials_def other_credentials_def)
  have no: "''s3cret'' \<notin> set
       [SAMPLE_OVERRIDE, ''upack'', ''download'', ''--service'', SAMPLE_INSTANCE,
        ''--patvar'', ''VSTS_ARTIFACTTOOL_PATVAR'', ''--feed'', ''feed'', ''--package-name'', ''pkg'',
        ''--package-version'', ''1.0.0'', ''--path'', ''dir'']"
       "''s3cret'' \<notin> set
       ([SAMPLE_OVERRIDE, ''upack'', ''publish'', ''--service'', SAMPLE_INSTANCE,
        ''--patvar'', ''VSTS_ARTIFACTTOOL_PATVAR'', ''--feed'', ''feed'', ''--package-name'', ''pkg'',
        ''--package-version'', ''1.0.0'', ''--path'', ''dir''] @ [''--description'', ''first''])"
    by code_simp+
  from credential_only_in_environment [OF h1 h2 h3,
      of "''feed''" "''pkg''" "''1.0.0''" "''dir''" "Some ''first''"]
  obtain d p d' p' where run:
    "snd (download_upack sample_host override_world SAMPLE_INSTANCE ''feed'' ''pkg'' ''1.0.0'' ''dir'')
       = Inr d"
    "snd (publish_upack sample_host override_world SAMPLE_INSTANCE ''feed'' ''pkg'' ''1.0.0''
            (Some ''first'') ''dir'') = Inr p"
    "snd (download_upack (sample_host\<lparr>get_credentials := (\<lambda>t. Inr other_credentials)\<rparr>)
            override_world SAMPLE_INSTANCE ''feed'' ''pkg'' ''1.0.0'' ''dir'') = Inr d'"
    "snd (publish_upack (sample_host\<lparr>get_credentials := (\<lambda>t. Inr other_credentials)\<rparr>)
            override_world SAMPLE_INSTANCE ''feed'' ''pkg'' ''1.0.0'' (Some ''first'') ''dir'')
       = Inr p'"
    and env: "new_env d = (environ override_world)(PATVAR \<mapsto> ''s3cret'')"
    "new_env p = (environ override_world)(PATVAR \<mapsto> ''s3cret'')"
    "new_env d' = (environ override_world)(PATVAR \<mapsto> ''hunter2'')"
    "new_env p' = (environ override_world)(PATVAR \<mapsto> ''hunter2'')"
    and same: "command_args d' = command_args d" "command_args p' = command_args p"
    and args: "command_args d =
       [SAMPLE_OVERRIDE, ''upack'', ''download'', ''--service'', SAMPLE_INSTANCE,
        ''--patvar'', ''VSTS_ARTIFACTTOOL_PATVAR'', ''--feed'', ''feed'', ''--package-name'', ''pkg'',
        ''--package-version'', ''1.0.0'', ''--path'', ''dir'']"
    "command_args p =
       [SAMPLE_OVERRIDE, ''upack'', ''publish'', ''--service'', SAMPLE_INSTANCE,
        ''--patvar'', ''VSTS_ARTIFACTTOOL_PATVAR'', ''--feed'', ''feed'', ''--package-name'', ''pkg'',
        ''--package-version'', ''1.0.0'', ''--path'', ''dir''] @ [''--description'', ''first'']"
    unfolding pw by auto
  have absent: "''s3cret'' \<notin> set (command_args d)" "''s3cret'' \<notin> set (command_args p)"
    using no unfolding args by blast+
  from h1 h2 pw run env same absent show ?thesis
    by blast
qed

text \<open>
  Claim C9, as stated, fails: the label that \<^verbatim>\<open>publish_upack\<close> passes to the runner is
  "Publishing", not "Uploading".
\<close>

theorem publish_label_counterexample:
  "map_sum id initial_progress_message
     (snd (publish_upack sample_host override_world SAMPLE_INSTANCE ''feed'' ''pkg'' ''1.0.0''
             None ''dir'')) = Inr ''Publishing'' \<and>
   map_sum id initial_progress_message
     (snd (publish_upack sample_host override_world SAMPLE_INSTANCE ''feed'' ''pkg'' ''1.0.0''
             None ''dir'')) \<noteq> Inr ''Uploading''"
  by code_simp

text \<open>
  Claim C9, amended. In every invocation that reaches the runner, the initial progress
  label is "Downloading" for \<^verbatim>\<open>download_upack\<close> and "Publishing" for \<^verbatim>\<open>publish_upack\<close>.
\<close>

theorem initial_progress_labels:
  assumes "snd (get_latest_artifacttool H w team_instance) = Inr tool"
    and "get_credentials H team_instance = Inr c"
  shows "\<exists>d p.
     snd (download_upack H w team_instance feed name version path) = Inr d \<and>
     snd (publish_upack H w team_instance feed name version description path) = Inr p \<and>
     initial_progress_message d = ''Downloading'' \<and>
     initial_progress_message p = ''Publishing''"
  by (simp add: download_upack_def publish_upack_def Let_def
      invoke_artifacttool_reaches_run [OF assms])

theorem initial_progress_labels_witness:
  "snd (get_latest_artifacttool sample_host cached_world SAMPLE_INSTANCE) = Inr SAMPLE_BINARY \<and>
   get_credentials sample_host SAMPLE_INSTANCE = Inr sample_credentials \<and>
   (\<exists>d p.
     snd (download_upack sample_host cached_world SAMPLE_INSTANCE ''feed'' ''pkg'' ''1.0.0'' ''dir'')
       = Inr d \<and>
     snd (publish_upack sample_host cached_world SAMPLE_INSTANCE ''feed'' ''pkg'' ''1.0.0''
            None ''dir'') = Inr p \<and>
     initial_progress_message d = ''Downloading'' \<and>
     initial_progress_message p = ''Publishing'')"
proof -
  have h1: "snd (get_latest_artifacttool sample_host cached_world SAMPLE_INSTANCE)
      = Inr SAMPLE_BINARY"
    by code_simp
  have h2: "get_credentials sample_host SAMPLE_INSTANCE = Inr sample_credentials"
    by (simp add: sample_host_def)
  from initial_progress_labels [OF h1 h2, of "''feed''" "''pkg''" "''1.0.0''" "''dir''" None] h1 h2
  show ?thesis by blast
qed

end
